theory Spec2Isabelle
  imports Main "HOL-Library.Sublist"
begin

section \<open>The process manager of the server wrapper\<close>

text \<open>
  The class \<^verbatim>\<open>ProcessManager\<close> keeps a map \<^verbatim>\<open>processes\<close> from a name to the record of
  a spawned child and offers start, stop, kill, command, status, cleanup and backup on
  it; the HTTP routes of the wrapper call these methods for the single name
  \<^verbatim>\<open>'minecraft-server'\<close>. The model passes the manager explicitly as a state, returns
  every \<^verbatim>\<open>throw\<close> as \<open>Inl\<close>, reads the operating system through a record of
  oracles, and appends every call that reaches the operating system to a trace.
\<close>

subsection \<open>Strings and paths\<close>

text \<open>Template literals render a number in decimal.\<close>

definition digit :: "nat \<Rightarrow> char" where
  "digit d = ''0123456789'' ! d"

function show_nat :: "nat \<Rightarrow> string" where
  "show_nat n = (if n < 10 then [digit n] else show_nat (n div 10) @ [digit (n mod 10)])"
  by pat_completeness auto
termination
  by (relation "measure id") auto

declare show_nat.simps [simp del]

text \<open>\<^verbatim>\<open>`${pid}`\<close> for a pid that may be \<^verbatim>\<open>undefined\<close>.\<close>

definition show_pid :: "nat option \<Rightarrow> string" where
  "show_pid p = (case p of None \<Rightarrow> ''undefined'' | Some n \<Rightarrow> show_nat n)"

text \<open>\<^verbatim>\<open>String.prototype.includes\<close>: the needle occurs somewhere in the text.\<close>

fun str_includes :: "string \<Rightarrow> string \<Rightarrow> bool" where
  "str_includes [] needle = (needle = [])"
| "str_includes (c # cs) needle = (prefix needle (c # cs) \<or> str_includes cs needle)"

text \<open>
  \<^verbatim>\<open>path.join\<close> belongs to the runtime and differs between platforms, so the model
  reads it from the operating system (the field \<open>path_join\<close> below). What follows is
  the POSIX one, as the runtime defines it, for the concrete installation: the
  non-empty arguments are joined with a slash and the result is normalised: empty
  and \<^verbatim>\<open>.\<close> segments go, a \<^verbatim>\<open>..\<close> takes the segment before it away (or stays, in a
  relative path that has none), a trailing slash stays.
\<close>

definition segments :: "string \<Rightarrow> string list" where
  "segments s =
    foldr (\<lambda>c acc. if c = CHR ''/'' then [] # acc
                    else (case acc of [] \<Rightarrow> [[c]] | l # ls \<Rightarrow> (c # l) # ls)) s []"

fun join_with :: "string \<Rightarrow> string list \<Rightarrow> string" where
  "join_with sep [] = []"
| "join_with sep [p] = p"
| "join_with sep (p # q # ps) = p @ sep @ join_with sep (q # ps)"

definition normalize_step :: "bool \<Rightarrow> string list \<Rightarrow> string \<Rightarrow> string list" where
  "normalize_step allowAboveRoot res seg =
    (if seg = [] \<or> seg = ''.'' then res
     else if seg = ''..''
     then (case res of
             [] \<Rightarrow> (if allowAboveRoot then [''..''] else [])
           | s # ss \<Rightarrow> (if s = ''..'' then ''..'' # s # ss else ss))
     else seg # res)"

definition normalizeString :: "string \<Rightarrow> bool \<Rightarrow> string" where
  "normalizeString path allowAboveRoot =
    join_with ''/'' (rev (foldl (normalize_step allowAboveRoot) [] (segments path)))"

definition normalize :: "string \<Rightarrow> string" where
  "normalize path =
    (if path = [] then ''.''
     else
       let isAbsolute = (hd path = CHR ''/'');
           trailingSeparator = (last path = CHR ''/'');
           p = normalizeString path (\<not> isAbsolute)
       in if p = []
          then (if isAbsolute then ''/'' else if trailingSeparator then ''./'' else ''.'')
          else (if isAbsolute then ''/'' else []) @ p @ (if trailingSeparator then ''/'' else []))"

definition posix_join :: "string list \<Rightarrow> string" where
  "posix_join args =
    (let given = filter (\<lambda>arg. arg \<noteq> []) args
     in if given = [] then ''.'' else normalize (join_with ''/'' given))"

text \<open>\<^verbatim>\<open>.replace(/[:.]/g, '-')\<close> on an ISO timestamp.\<close>

definition dash_stamp :: "string \<Rightarrow> string" where
  "dash_stamp s = map (\<lambda>c. if c = CHR '':'' \<or> c = CHR ''.'' then CHR ''-'' else c) s"

subsection \<open>Data\<close>

text \<open>
  The config object handed to \<^verbatim>\<open>startMinecraftServer\<close>: every property may be absent
  (\<^verbatim>\<open>undefined\<close>, here \<open>None\<close>). \<^verbatim>\<open>customArgs\<close> is a property the routes store and
  the manager never reads.
\<close>

record config =
  jarFile :: "string option"
  minMemory :: "string option"
  maxMemory :: "string option"
  jvmArgs :: "string list option"
  serverArgs :: "string list option"
  workingDir :: "string option"
  useAikarFlags :: "bool option"
  customArgs :: "string option"

text \<open>
  The \<^verbatim>\<open>ChildProcess\<close> object that \<^verbatim>\<open>spawn\<close> returns. Its pid is \<^verbatim>\<open>undefined\<close> when
  the operating system could not start the program, which the runtime reports later
  through the child's \<^verbatim>\<open>'error'\<close> event; \<open>child_stdio\<close> says whether the three stream
  objects \<^verbatim>\<open>stdin\<close>, \<^verbatim>\<open>stdout\<close>, \<^verbatim>\<open>stderr\<close> exist on it.
\<close>

record child =
  child_pid :: "nat option"
  child_stdio :: bool

record spawnOptions =
  cwd :: string
  detached :: bool
  windowsHide :: bool

record processInfo =
  pid :: "nat option"
  startTime :: nat
  config :: config
  logFile :: string
  errorLogFile :: string
  process :: child

text \<open>What \<^verbatim>\<open>startMinecraftServer\<close> returns.\<close>

record started =
  started_pid :: "nat option"
  started_startTime :: nat
  started_logFile :: string
  started_errorLogFile :: string

text \<open>
  Every call by which the manager acts on the outside, in the order it is made; a call
  that throws is listed too. Calls that only read (\<^verbatim>\<open>existsSync\<close>, \<^verbatim>\<open>readdirSync\<close>,
  \<^verbatim>\<open>statSync\<close>, the liveness probe) are not listed.
\<close>

datatype effect =
    Spawn string "string list" spawnOptions
  | CreateWriteStream string
  | StreamWrite string string
  | StreamEnd string
  | StdinWrite child string
  | ProcessKill int string
  | ChildKill child string
  | Exec string
  | ConsoleError string
  | MkDir string
  | CopyFile string string

text \<open>
  The thrown errors, one constructor for each \<^verbatim>\<open>new Error\<close> of the source,
  \<open>Rethrown\<close> for an error of the runtime that \<^verbatim>\<open>killProcess\<close> throws again, and
  \<open>FsError\<close> for an error that a call to the file system throws.
\<close>

datatype error =
    JarNotFound string
  | StartFailed string
  | ProcessNotFound string
  | DidNotStop string nat
  | Rethrown string
  | FsError string

definition message :: "error \<Rightarrow> string" where
  "message e =
    (case e of
       JarNotFound jarPath \<Rightarrow> ''Server jar file not found: '' @ jarPath
     | StartFailed msg \<Rightarrow> ''Failed to start Minecraft server: '' @ msg
     | ProcessNotFound processName \<Rightarrow> ''Process '' @ processName @ '' not found''
     | DidNotStop processName timeout \<Rightarrow>
         ''Process '' @ processName @ '' did not stop within '' @ show_nat timeout @ ''ms''
     | Rethrown msg \<Rightarrow> msg
     | FsError msg \<Rightarrow> msg)"

text \<open>
  What \<^verbatim>\<open>readdirSync\<close> and \<^verbatim>\<open>statSync\<close> find under a path: a regular file; a
  directory with its entries, in the order \<^verbatim>\<open>readdirSync\<close> lists them; a directory
  that \<^verbatim>\<open>readdirSync\<close> cannot read; an entry on which \<^verbatim>\<open>statSync\<close> throws.
\<close>

datatype fsnode =
    File
  | Dir "(string \<times> fsnode) list"
  | Locked string
  | Failing string

text \<open>
  The operating system as the manager reads it during one call: \<^verbatim>\<open>path.join\<close>, the
  file system (\<^verbatim>\<open>existsSync\<close>; whether \<^verbatim>\<open>mkdirSync\<close> and \<^verbatim>\<open>copyFileSync\<close> throw, \<open>Some\<close>
  with the message when they do; what lies under a path), the clock, what \<^verbatim>\<open>spawn\<close>
  does (\<open>Inl\<close> when it throws), whether \<^verbatim>\<open>process.kill\<close> and \<^verbatim>\<open>child.kill\<close> throw, the
  signal-0 probe, and the output of \<^verbatim>\<open>tasklist\<close> (\<open>None\<close> when \<^verbatim>\<open>execSync\<close> throws).
  The answers of \<^verbatim>\<open>existsSync\<close> are those at the start of the call: no path is asked
  for after the call itself has created it.
\<close>

record os =
  dirname :: string
  path_join :: "string list \<Rightarrow> string"
  existsSync :: "string \<Rightarrow> bool"
  mkdirSync :: "string \<Rightarrow> string option"
  copyFileSync :: "string \<Rightarrow> string \<Rightarrow> string option"
  readTree :: "string \<Rightarrow> fsnode"
  now :: nat
  toISOString :: "nat \<Rightarrow> string"
  spawn :: "string \<Rightarrow> string list \<Rightarrow> spawnOptions \<Rightarrow> string + child"
  kill_throws :: "int \<Rightarrow> string \<Rightarrow> string option"
  child_kill_throws :: "child \<Rightarrow> string \<Rightarrow> string option"
  signal0 :: "nat \<Rightarrow> bool"
  tasklist :: "nat \<Rightarrow> string option"

text \<open>The manager object, with the trace of its calls to the outside.\<close>

record manager =
  isWindows :: bool
  logDir :: string
  processes :: "string \<rightharpoonup> processInfo"
  trace :: "effect list"

definition emit :: "effect list \<Rightarrow> manager \<Rightarrow> manager" where
  "emit es m = m\<lparr>trace := trace m @ es\<rparr>"

subsection \<open>Starting\<close>

text \<open>A destructuring default: it replaces a property that is \<^verbatim>\<open>undefined\<close>.\<close>

definition dflt :: "'a \<Rightarrow> 'a option \<Rightarrow> 'a" where
  "dflt d v = (case v of None \<Rightarrow> d | Some x \<Rightarrow> x)"

definition aikarFlags :: "string list" where
  "aikarFlags =
    [''-XX:+UseG1GC'',
     ''-XX:+ParallelRefProcEnabled'',
     ''-XX:MaxGCPauseMillis=200'',
     ''-XX:+UnlockExperimentalVMOptions'',
     ''-XX:+DisableExplicitGC'',
     ''-XX:+AlwaysPreTouch'',
     ''-XX:G1NewSizePercent=30'',
     ''-XX:G1MaxNewSizePercent=40'',
     ''-XX:G1HeapRegionSize=8M'',
     ''-XX:G1ReservePercent=20'',
     ''-XX:G1HeapWastePercent=5'',
     ''-XX:G1MixedGCCountTarget=4'',
     ''-XX:InitiatingHeapOccupancyPercent=15'',
     ''-XX:G1MixedGCLiveThresholdPercent=90'',
     ''-XX:G1RSetUpdatingPauseTimePercent=5'',
     ''-XX:SurvivorRatio=32'',
     ''-XX:+PerfDisableSharedMem'',
     ''-XX:MaxTenuringThreshold=1'']"

text \<open>\<^verbatim>\<open>args.push(...)\<close> appends its arguments to the array.\<close>

definition push :: "'a list \<Rightarrow> 'a list \<Rightarrow> 'a list" where
  "push args xs = args @ xs"

text \<open>
  The local variables of \<^verbatim>\<open>startMinecraftServer\<close> after the destructuring of the
  config, defaults substituted.
\<close>

record launch =
  l_jarFile :: string
  l_minMemory :: string
  l_maxMemory :: string
  l_jvmArgs :: "string list"
  l_serverArgs :: "string list"
  l_workingDir :: string
  l_useAikarFlags :: bool

definition destructure :: "os \<Rightarrow> config \<Rightarrow> launch" where
  "destructure os c =
    \<lparr> l_jarFile = dflt ''server.jar'' (jarFile c),
      l_minMemory = dflt ''1G'' (minMemory c),
      l_maxMemory = dflt ''2G'' (maxMemory c),
      l_jvmArgs = dflt [] (jvmArgs c),
      l_serverArgs = dflt [] (serverArgs c),
      l_workingDir = dflt (path_join os [dirname os, ''..'', ''minecraft-server'']) (workingDir c),
      l_useAikarFlags = dflt False (useAikarFlags c) \<rparr>"

text \<open>The argument vector, built by the pushes of the source in their order.\<close>

definition build_args :: "launch \<Rightarrow> string list" where
  "build_args l =
    (let args = [];
         args = push args [''-Xms'' @ l_minMemory l, ''-Xmx'' @ l_maxMemory l];
         args = (if l_useAikarFlags l then push args aikarFlags else args);
         args = push args (l_jvmArgs l);
         args = push args [''-jar'', l_jarFile l, ''--nogui''];
         args = push args (l_serverArgs l)
     in args)"

text \<open>
  \<^verbatim>\<open>startMinecraftServer\<close>. The jar is looked for before anything else. Inside the
  \<^verbatim>\<open>try\<close>, the child is spawned, its record is stored under \<^verbatim>\<open>'minecraft-server'\<close>,
  the two log streams are opened and the listeners are attached; attaching a listener
  to \<^verbatim>\<open>child.stdout\<close> throws when the child has no streams. Whatever the \<^verbatim>\<open>try\<close>
  throws is thrown again with the prefix of the source, and nothing is undone.
\<close>

definition startMinecraftServer :: "os \<Rightarrow> manager \<Rightarrow> config \<Rightarrow> (error + started) \<times> manager" where
  "startMinecraftServer os m c =
    (let l = destructure os c;
         jarPath = path_join os [l_workingDir l, l_jarFile l]
     in if \<not> existsSync os jarPath
        then (Inl (JarNotFound jarPath), m)
        else
          let args = build_args l;
              timestamp = dash_stamp (toISOString os (now os));
              logFile = path_join os [logDir m, ''minecraft-server-'' @ timestamp @ ''.log''];
              errorLogFile = path_join os [logDir m, ''minecraft-server-error-'' @ timestamp @ ''.log''];
              spawnOptions = \<lparr> cwd = l_workingDir l, detached = (\<not> isWindows m),
                               windowsHide = isWindows m \<rparr>;
              m1 = emit [Spawn ''java'' args spawnOptions] m
          in case spawn os ''java'' args spawnOptions of
               Inl msg \<Rightarrow> (Inl (StartFailed msg), m1)
             | Inr ch \<Rightarrow>
                 let info = \<lparr> pid = child_pid ch, startTime = now os, config = c,
                              logFile = logFile, errorLogFile = errorLogFile, process = ch \<rparr>;
                     m2 = m1\<lparr>processes := (processes m1)(''minecraft-server'' \<mapsto> info)\<rparr>;
                     m3 = emit [CreateWriteStream logFile, CreateWriteStream errorLogFile] m2
                 in if \<not> child_stdio ch
                    then (Inl (StartFailed ''Cannot read properties of undefined''), m3)
                    else (Inr \<lparr> started_pid = child_pid ch, started_startTime = startTime info,
                                started_logFile = logFile, started_errorLogFile = errorLogFile \<rparr>,
                          m3))"

subsection \<open>The listeners of a child\<close>

text \<open>
  The listeners are closures of the start call: they write to the two log files that
  call chose, whatever the map holds when they run. Each takes the clock at the time
  of its event.
\<close>

definition logLine :: "string \<Rightarrow> string \<Rightarrow> string" where
  "logLine timestamp text = ''['' @ timestamp @ ''] '' @ text"

definition render_code :: "int option \<Rightarrow> string" where
  "render_code code =
    (case code of None \<Rightarrow> ''null''
     | Some k \<Rightarrow> (if k < 0 then ''-'' @ show_nat (nat (- k)) else show_nat (nat k)))"

definition render_signal :: "string option \<Rightarrow> string" where
  "render_signal signal = (case signal of None \<Rightarrow> ''null'' | Some s \<Rightarrow> s)"

datatype event =
    StdoutData string
  | StderrData string
  | Close "int option" "string option"
  | Error string

definition handle :: "os \<Rightarrow> processInfo \<Rightarrow> event \<Rightarrow> manager \<Rightarrow> manager" where
  "handle os info ev m =
    (let timestamp = toISOString os (now os) in
     case ev of
       StdoutData dat \<Rightarrow> emit [StreamWrite (logFile info) (logLine timestamp dat)] m
     | StderrData dat \<Rightarrow> emit [StreamWrite (errorLogFile info) (logLine timestamp dat)] m
     | Close code signal \<Rightarrow>
         (emit [StreamWrite (logFile info)
                  (logLine timestamp (''Process exited with code '' @ render_code code
                     @ '' and signal '' @ render_signal signal @ ''\<newline>'')),
                StreamEnd (logFile info), StreamEnd (errorLogFile info)] m)
           \<lparr>processes := (processes m)(''minecraft-server'' := None)\<rparr>
     | Error msg \<Rightarrow>
         emit [StreamWrite (errorLogFile info)
                 (logLine timestamp (''Process error: '' @ msg @ ''\<newline>''))] m)"

text \<open>A run of events, each with the time at which it arrives.\<close>

fun handle_all :: "os \<Rightarrow> processInfo \<Rightarrow> (nat \<times> event) list \<Rightarrow> manager \<Rightarrow> manager" where
  "handle_all os info [] m = m"
| "handle_all os info ((t, ev) # evs) m = handle_all os info evs (handle (os\<lparr>now := t\<rparr>) info ev m)"

text \<open>What a log file holds: the texts written to its stream, in order.\<close>

fun written :: "string \<Rightarrow> effect list \<Rightarrow> string" where
  "written path [] = []"
| "written path (StreamWrite p text # es) = (if p = path then text @ written path es else written path es)"
| "written path (e # es) = written path es"

text \<open>The lines of a text, a newline ending each line but possibly the last.\<close>

definition split_lines :: "string \<Rightarrow> string list" where
  "split_lines s =
    foldr (\<lambda>c acc. if c = CHR ''\<newline>'' then [] # acc
                    else (case acc of [] \<Rightarrow> [[c]] | l # ls \<Rightarrow> (c # l) # ls)) s []"

text \<open>A line that begins with a bracketed stamp and a space.\<close>

definition stamped :: "string \<Rightarrow> bool" where
  "stamped l = (case l of [] \<Rightarrow> False | c # cs \<Rightarrow> c = CHR ''['' \<and> str_includes cs ''] '')"

subsection \<open>Killing, stopping, commands\<close>

definition killProcess :: "os \<Rightarrow> manager \<Rightarrow> string \<Rightarrow> string option \<Rightarrow> (error + unit) \<times> manager" where
  "killProcess os m processName sig =
    (let signal = dflt ''SIGKILL'' sig in
     case processes m processName of
       None \<Rightarrow> (Inl (ProcessNotFound processName), m)
     | Some info \<Rightarrow>
         let ch = process info;
             complaint = ConsoleError (''Failed to kill process '' @ processName @ '':'')
         in if isWindows m
            then (if signal = ''SIGKILL''
                  then (Inr (), emit [Exec (''taskkill /F /PID '' @ show_pid (pid info))] m)
                  else (case child_kill_throws os ch signal of
                          None \<Rightarrow> (Inr (), emit [ChildKill ch signal] m)
                        | Some msg \<Rightarrow> (Inl (Rethrown msg), emit [ChildKill ch signal, complaint] m)))
            else (case child_pid ch of
                    None \<Rightarrow> (Inr (), m)
                  | Some p \<Rightarrow>
                      if p = 0 then (Inr (), m)
                      else (case kill_throws os (- int p) signal of
                              None \<Rightarrow> (Inr (), emit [ProcessKill (- int p) signal] m)
                            | Some msg \<Rightarrow>
                                (Inl (Rethrown msg), emit [ProcessKill (- int p) signal, complaint] m))))"

text \<open>
  The body of the promise of \<^verbatim>\<open>stopProcess\<close> once the timer and the \<^verbatim>\<open>'close'\<close> listener
  are set: the word \<^verbatim>\<open>stop\<close> on the child's input, or \<^verbatim>\<open>SIGTERM\<close> when the input is
  not there or the name is another one. An error thrown here rejects the promise.
\<close>

definition stop_request :: "os \<Rightarrow> manager \<Rightarrow> string \<Rightarrow> processInfo \<Rightarrow> (error + unit) \<times> manager" where
  "stop_request os m processName info =
    (if processName = ''minecraft-server''
     then (if child_stdio (process info)
           then (Inr (), emit [StdinWrite (process info) ''stop\<newline>''] m)
           else killProcess os m processName (Some ''SIGTERM''))
     else killProcess os m processName (Some ''SIGTERM''))"

text \<open>
  What ends the wait of \<^verbatim>\<open>stopProcess\<close>: the child's \<^verbatim>\<open>'close'\<close> event, at some time
  and with its exit code and signal, or the timer.
\<close>

datatype wait = Closed nat "int option" "string option" | TimerFired

definition stopProcess ::
  "os \<Rightarrow> manager \<Rightarrow> string \<Rightarrow> nat option \<Rightarrow> wait \<Rightarrow> (error + int option \<times> string option) \<times> manager" where
  "stopProcess os m processName tmo w =
    (let timeout = dflt 30000 tmo in
     case processes m processName of
       None \<Rightarrow> (Inl (ProcessNotFound processName), m)
     | Some info \<Rightarrow>
         (case stop_request os m processName info of
            (Inl e, m1) \<Rightarrow> (Inl e, m1)
          | (Inr u, m1) \<Rightarrow>
              (case w of
                 TimerFired \<Rightarrow> (Inl (DidNotStop processName timeout), m1)
               | Closed t code signal \<Rightarrow>
                   (Inr (code, signal), handle (os\<lparr>now := t\<rparr>) info (Close code signal) m1))))"

text \<open>An effect that terminates by force: \<^verbatim>\<open>SIGKILL\<close>, or \<^verbatim>\<open>taskkill\<close>.\<close>

definition forced :: "effect \<Rightarrow> bool" where
  "forced e =
    (case e of
       ProcessKill target signal \<Rightarrow> signal = ''SIGKILL''
     | ChildKill ch signal \<Rightarrow> signal = ''SIGKILL''
     | Exec command \<Rightarrow> prefix ''taskkill'' command
     | _ \<Rightarrow> False)"

text \<open>
  An effect that reaches the descendants of the child too: a signal to a process group
  (a negative target of \<^verbatim>\<open>process.kill\<close>), or \<^verbatim>\<open>taskkill\<close> with its tree switch
  \<^verbatim>\<open>/T\<close>.
\<close>

definition reaches_tree :: "effect \<Rightarrow> bool" where
  "reaches_tree e =
    (case e of
       ProcessKill target signal \<Rightarrow> target < 0
     | Exec command \<Rightarrow> prefix ''taskkill'' command \<and> str_includes command '' /T''
     | _ \<Rightarrow> False)"

definition sendCommand :: "manager \<Rightarrow> string \<Rightarrow> string \<Rightarrow> (error + bool) \<times> manager" where
  "sendCommand m processName command =
    (case processes m processName of
       None \<Rightarrow> (Inl (ProcessNotFound processName), m)
     | Some info \<Rightarrow>
         if child_stdio (process info)
         then (Inr True, emit [StdinWrite (process info) (command @ ''\<newline>'')] m)
         else (Inr False, emit [ConsoleError (''Failed to send command to '' @ processName @ '':'')] m))"

subsection \<open>Status and cleanup\<close>

text \<open>
  \<^verbatim>\<open>isProcessRunning\<close>: on Windows the output of \<^verbatim>\<open>tasklist\<close> must hold the digits of
  the pid, elsewhere signal 0 must be deliverable; whatever throws gives \<^verbatim>\<open>false\<close>, and
  with a pid that is \<^verbatim>\<open>undefined\<close> both branches throw.
\<close>

definition isProcessRunning :: "os \<Rightarrow> manager \<Rightarrow> nat option \<Rightarrow> bool" where
  "isProcessRunning os m p =
    (case p of
       None \<Rightarrow> False
     | Some n \<Rightarrow>
         if isWindows m
         then (case tasklist os n of None \<Rightarrow> False | Some result \<Rightarrow> str_includes result (show_nat n))
         else signal0 os n)"

record report =
  r_pid :: "nat option"
  r_startTime :: nat
  r_uptime :: int
  r_config :: config
  r_logFile :: string
  r_errorLogFile :: string

text \<open>The object \<^verbatim>\<open>getProcessStatus\<close> returns: \<^verbatim>\<open>running\<close> alone, or with the record's fields.\<close>

record status =
  running :: bool
  report :: "report option"

definition getProcessStatus :: "os \<Rightarrow> manager \<Rightarrow> string \<Rightarrow> status \<times> manager" where
  "getProcessStatus os m processName =
    (case processes m processName of
       None \<Rightarrow> (\<lparr> running = False, report = None \<rparr>, m)
     | Some info \<Rightarrow>
         let isRunning = isProcessRunning os m (pid info)
         in (\<lparr> running = isRunning,
               report = Some \<lparr> r_pid = pid info, r_startTime = startTime info,
                               r_uptime = int (now os) - int (startTime info),
                               r_config = config info, r_logFile = logFile info,
                               r_errorLogFile = errorLogFile info \<rparr> \<rparr>, m))"

text \<open>\<^verbatim>\<open>cleanup\<close> deletes every entry whose pid the probe reports dead.\<close>

definition cleanup :: "os \<Rightarrow> manager \<Rightarrow> manager" where
  "cleanup os m =
    m\<lparr>processes := (\<lambda>name.
         case processes m name of
           None \<Rightarrow> None
         | Some info \<Rightarrow> if \<not> isProcessRunning os m (pid info) then None else Some info)\<rparr>"

subsection \<open>Backup\<close>






record backup =
  backupPath :: string
  timestamp :: string
  files :: "string list"





subsection \<open>The routes of the wrapper\<close>

text \<open>
  The server module holds the manager, the variable \<^verbatim>\<open>serverStatus\<close>, the saved
  \<^verbatim>\<open>serverConfig\<close> and the server path; \<open>broadcasts\<close> lists the status messages sent to
  the connected clients.
\<close>

datatype lifecycle = Stopped | Starting | Running | Stopping

record app =
  processManager :: manager
  serverStatus :: lifecycle
  serverConfig :: config
  serverPath :: string
  broadcasts :: "lifecycle list"

datatype response =
    Success string
  | StartSuccess started
  | Failure nat string

definition set_status :: "lifecycle \<Rightarrow> app \<Rightarrow> app" where
  "set_status s a = a\<lparr>serverStatus := s, broadcasts := broadcasts a @ [s]\<rparr>"

text \<open>\<^verbatim>\<open>POST /api/server/start\<close>.\<close>

definition api_server_start :: "os \<Rightarrow> app \<Rightarrow> response \<times> app" where
  "api_server_start os a =
    (let (status, m) = getProcessStatus os (processManager a) ''minecraft-server''
     in if running status
        then (Failure 400 ''Server is already running'', a)
        else
          let a1 = set_status Starting a
          in case startMinecraftServer os (processManager a1)
                    ((serverConfig a1)\<lparr>workingDir := Some (serverPath a1)\<rparr>) of
               (Inr processInfo, m') \<Rightarrow>
                 (StartSuccess processInfo, set_status Running (a1\<lparr>processManager := m'\<rparr>))
             | (Inl e, m') \<Rightarrow>
                 (Failure 500 (message e), set_status Stopped (a1\<lparr>processManager := m'\<rparr>)))"

text \<open>\<^verbatim>\<open>POST /api/server/command\<close>: a missing or empty command is refused.\<close>

definition api_server_command :: "app \<Rightarrow> string option \<Rightarrow> response \<times> app" where
  "api_server_command a body =
    (case body of
       None \<Rightarrow> (Failure 400 ''Command is required'', a)
     | Some command \<Rightarrow>
         if command = [] then (Failure 400 ''Command is required'', a)
         else (case sendCommand (processManager a) ''minecraft-server'' command of
                 (Inr success, m') \<Rightarrow>
                   (if success then (Success ''Command sent successfully'', a\<lparr>processManager := m'\<rparr>)
                    else (Failure 500 ''Failed to send command'', a\<lparr>processManager := m'\<rparr>))
               | (Inl e, m') \<Rightarrow> (Failure 500 (message e), a\<lparr>processManager := m'\<rparr>)))"

subsection \<open>A concrete installation\<close>

text \<open>
  One wrapper installed under \<^verbatim>\<open>/srv/wrapper\<close> with its server directory \<^verbatim>\<open>/srv/mc\<close>,
  on a POSIX machine, on which the statements below are evaluated: the jar, two of
  the five configuration files and the world directory exist (and a jar in the default
  server directory too), no call to the file system throws, \<^verbatim>\<open>java\<close> starts as process
  4242, and that process is alive.
\<close>

definition demo_child :: child where
  "demo_child = \<lparr> child_pid = Some 4242, child_stdio = True \<rparr>"

definition demo_world :: fsnode where
  "demo_world = Dir [(''level.dat'', File), (''region'', Dir [(''r.0.0.mca'', File)])]"

definition demo_os :: os where
  "demo_os =
    \<lparr> dirname = ''/srv/wrapper/scripts'',
      path_join = posix_join,
      existsSync = (\<lambda>p. p \<in> {''/srv/mc/server.jar'', ''/srv/mc/server.properties'',
                              ''/srv/mc/ops.json'', ''/srv/mc/world'',
                              ''/srv/wrapper/minecraft-server/server.jar''}),
      mkdirSync = (\<lambda>p. None),
      copyFileSync = (\<lambda>p q. None),
      readTree = (\<lambda>p. demo_world),
      now = 1000,
      toISOString = (\<lambda>t. ''2024-01-01T10:00:00.000Z''),
      spawn = (\<lambda>command args options. Inr demo_child),
      kill_throws = (\<lambda>target signal. None),
      child_kill_throws = (\<lambda>ch signal. None),
      signal0 = (\<lambda>n. n = 4242),
      tasklist = (\<lambda>n. if n = 4242 then Some ''java.exe 4242 Console 1 512,000 K''
                         else Some ''INFO: No tasks are running.'') \<rparr>"

definition demo_manager :: manager where
  "demo_manager =
    \<lparr> isWindows = False, logDir = ''/srv/wrapper/logs'', processes = Map.empty, trace = [] \<rparr>"

definition demo_config :: config where
  "demo_config =
    \<lparr> jarFile = Some ''server.jar'', minMemory = Some ''1G'', maxMemory = Some ''2G'',
      jvmArgs = None, serverArgs = None, workingDir = Some ''/srv/mc'',
      useAikarFlags = Some True, customArgs = Some [] \<rparr>"

definition demo_info :: processInfo where
  "demo_info =
    \<lparr> pid = Some 4242, startTime = 1000, config = demo_config,
      logFile = ''/srv/wrapper/logs/minecraft-server-2024-01-01T10-00-00-000Z.log'',
      errorLogFile = ''/srv/wrapper/logs/minecraft-server-error-2024-01-01T10-00-00-000Z.log'',
      process = demo_child \<rparr>"

text \<open>The manager with that child registered, on either platform.\<close>

definition demo_running :: manager where
  "demo_running = demo_manager\<lparr>processes := [''minecraft-server'' \<mapsto> demo_info]\<rparr>"

definition demo_running_windows :: manager where
  "demo_running_windows = demo_running\<lparr>isWindows := True\<rparr>"

text \<open>The same machine after process 4242 has died without a \<^verbatim>\<open>'close'\<close> event yet.\<close>

definition dead_os :: os where
  "dead_os = demo_os\<lparr>signal0 := (\<lambda>n. False)\<rparr>"

text \<open>
  A machine without \<^verbatim>\<open>java\<close> on its path: \<^verbatim>\<open>spawn\<close> returns a child that has no pid
  and reports the failure through its \<^verbatim>\<open>'error'\<close> event.
\<close>

definition no_java_os :: os where
  "no_java_os = demo_os\<lparr>spawn := (\<lambda>command args options.
                             Inr \<lparr> child_pid = None, child_stdio = True \<rparr>)\<rparr>"

text \<open>A machine on which \<^verbatim>\<open>spawn\<close> itself throws.\<close>

definition throwing_os :: os where
  "throwing_os = demo_os\<lparr>spawn := (\<lambda>command args options. Inl ''spawn EINVAL'')\<rparr>"

text \<open>A machine whose server directory holds no jar.\<close>

definition no_jar_os :: os where
  "no_jar_os = demo_os\<lparr>existsSync := (\<lambda>p. False)\<rparr>"

text \<open>
  The same machine one second later, process 4242 still alive, where \<^verbatim>\<open>java\<close> would
  start as process 4343.
\<close>

definition later_os :: os where
  "later_os = demo_os\<lparr>now := 2000,
                        signal0 := (\<lambda>n. n = 4242 \<or> n = 4343),
                        spawn := (\<lambda>command args options.
                                    Inr \<lparr> child_pid = Some 4343, child_stdio = True \<rparr>)\<rparr>"


definition demo_app :: app where
  "demo_app =
    \<lparr> processManager = demo_running, serverStatus = Running,
      serverConfig = demo_config\<lparr>workingDir := None\<rparr>, serverPath = ''/srv/mc'',
      broadcasts = [] \<rparr>"

text \<open>
  The config with no property; a config with two properties; and, for any config, the
  one in which every property the manager reads is supplied: the given value where
  there is one, the fixed default where there is none.
\<close>

definition empty_config :: config where
  "empty_config =
    \<lparr> jarFile = None, minMemory = None, maxMemory = None, jvmArgs = None, serverArgs = None,
      workingDir = None, useAikarFlags = None, customArgs = None \<rparr>"

definition partial_config :: config where
  "partial_config = empty_config\<lparr>maxMemory := Some ''4G'', serverArgs := Some [''--port'', ''25566'']\<rparr>"

definition defaults_supplied :: "os \<Rightarrow> config \<Rightarrow> config" where
  "defaults_supplied os c =
    \<lparr> jarFile = Some (case jarFile c of None \<Rightarrow> ''server.jar'' | Some x \<Rightarrow> x),
      minMemory = Some (case minMemory c of None \<Rightarrow> ''1G'' | Some x \<Rightarrow> x),
      maxMemory = Some (case maxMemory c of None \<Rightarrow> ''2G'' | Some x \<Rightarrow> x),
      jvmArgs = Some (case jvmArgs c of None \<Rightarrow> [] | Some x \<Rightarrow> x),
      serverArgs = Some (case serverArgs c of None \<Rightarrow> [] | Some x \<Rightarrow> x),
      workingDir = Some (case workingDir c of
                           None \<Rightarrow> path_join os [dirname os, ''..'', ''minecraft-server'']
                         | Some x \<Rightarrow> x),
      useAikarFlags = Some (case useAikarFlags c of None \<Rightarrow> False | Some x \<Rightarrow> x),
      customArgs = customArgs c \<rparr>"

section \<open>Properties\<close>

subsection \<open>Auxiliary facts\<close>

lemmas posix_eval =
  posix_join_def normalize_def normalizeString_def segments_def normalize_step_def

lemma emit_simps:
  "trace (emit es m) = trace m @ es"
  "processes (emit es m) = processes m"
  "isWindows (emit es m) = isWindows m"
  "logDir (emit es m) = logDir m"
  by (simp_all add: emit_def)

lemma show_nat_4242: "show_nat 4242 = ''4242''"
  by (simp add: show_nat.simps digit_def)

lemma build_args_order:
  "build_args l =
     [''-Xms'' @ l_minMemory l, ''-Xmx'' @ l_maxMemory l]
     @ (if l_useAikarFlags l then aikarFlags else [])
     @ l_jvmArgs l
     @ [''-jar'', l_jarFile l, ''--nogui'']
     @ l_serverArgs l"
  by (simp add: build_args_def push_def)

lemma start_spawns:
  "existsSync os (path_join os [l_workingDir (destructure os c), l_jarFile (destructure os c)]) \<Longrightarrow>
   trace (snd (startMinecraftServer os m c)) ! length (trace m) =
     Spawn ''java'' (build_args (destructure os c))
       \<lparr> cwd = l_workingDir (destructure os c), detached = (\<not> isWindows m), windowsHide = isWindows m \<rparr>"
  by (simp add: startMinecraftServer_def Let_def emit_simps nth_append split: sum.splits)

text \<open>The paths of the concrete installation.\<close>

lemma demo_paths:
  "path_join demo_os [''/srv/mc'', ''server.jar''] = ''/srv/mc/server.jar''"
  "path_join demo_os [''/srv/wrapper/scripts'', ''..'', ''minecraft-server'']
     = ''/srv/wrapper/minecraft-server''"
  "path_join demo_os [''/srv/wrapper/minecraft-server'', ''server.jar'']
     = ''/srv/wrapper/minecraft-server/server.jar''"
  "path_join demo_os [''/srv/wrapper/logs'', ''minecraft-server-2024-01-01T10-00-00-000Z.log'']
     = ''/srv/wrapper/logs/minecraft-server-2024-01-01T10-00-00-000Z.log''"
  "path_join demo_os [''/srv/wrapper/logs'', ''minecraft-server-error-2024-01-01T10-00-00-000Z.log'']
     = ''/srv/wrapper/logs/minecraft-server-error-2024-01-01T10-00-00-000Z.log''"
  by (simp_all add: demo_os_def posix_eval)

text \<open>
  A child without streams: the call throws after the record has been stored, and the
  record stays.
\<close>

lemma start_without_streams:
  "existsSync os (path_join os [l_workingDir (destructure os c), l_jarFile (destructure os c)]) \<Longrightarrow>
   spawn os ''java'' (build_args (destructure os c))
     \<lparr> cwd = l_workingDir (destructure os c), detached = (\<not> isWindows m),
       windowsHide = isWindows m \<rparr> = Inr ch \<Longrightarrow>
   \<not> child_stdio ch \<Longrightarrow>
   fst (startMinecraftServer os m c) = Inl (StartFailed ''Cannot read properties of undefined'')
   \<and> map_option process (processes (snd (startMinecraftServer os m c)) ''minecraft-server'') = Some ch"
  by (simp add: startMinecraftServer_def Let_def emit_simps)

text \<open>Nothing that \<^verbatim>\<open>stopProcess\<close> sends when it asks the child to stop is forced.\<close>

lemma forced_simps:
  "forced (StdinWrite ch text) = False"
  "forced (ConsoleError text) = False"
  "forced (ProcessKill target signal) = (signal = ''SIGKILL'')"
  "forced (ChildKill ch signal) = (signal = ''SIGKILL'')"
  by (simp_all add: forced_def)

lemma kill_sigterm_not_forced:
  "list_all (\<lambda>e. \<not> forced e)
     (drop (length (trace m)) (trace (snd (killProcess os m name (Some ''SIGTERM'')))))"
  by (simp add: killProcess_def dflt_def Let_def emit_simps forced_simps split: option.splits)

lemma stop_request_not_forced:
  "list_all (\<lambda>e. \<not> forced e)
     (drop (length (trace m)) (trace (snd (stop_request os m name info))))"
  by (simp add: stop_request_def emit_simps forced_simps kill_sigterm_not_forced)

lemma stop_timer_adds_nothing:
  "processes m name = Some info \<Longrightarrow>
   snd (stopProcess os m name tmo TimerFired) = snd (stop_request os m name info)"
  by (simp add: stopProcess_def Let_def split: prod.splits sum.splits)

lemma stop_timer_fails:
  "\<exists>e. fst (stopProcess os m name tmo TimerFired) = Inl e"
  by (simp add: stopProcess_def Let_def split: option.splits prod.splits sum.splits)

text \<open>
  Outside Windows a kill signals the process group of the child, which the start call
  made a group leader (\<^verbatim>\<open>detached\<close>).
\<close>

lemma kill_unix_reaches_group:
  assumes "\<not> isWindows m" and "processes m name = Some info" and "child_pid (process info) = Some p"
      and "0 < p" and "kill_throws os (- int p) ''SIGKILL'' = None"
  shows "killProcess os m name None = (Inr (), emit [ProcessKill (- int p) ''SIGKILL''] m)
         \<and> reaches_tree (ProcessKill (- int p) ''SIGKILL'')"
  using assms by (simp add: killProcess_def dflt_def Let_def reaches_tree_def)

text \<open>What a run of chunks leaves in a log file.\<close>

lemma written_append: "written path (xs @ ys) = written path xs @ written path ys"
  by (induction path xs rule: written.induct) simp_all

lemma stdout_chunks_written:
  "written (logFile info) (trace (handle_all os info (map (\<lambda>(t, d). (t, StdoutData d)) chunks) m)) =
     written (logFile info) (trace m) @ concat (map (\<lambda>(t, d). logLine (toISOString os t) d) chunks)"
proof (induction chunks arbitrary: m)
  case Nil
  show ?case by simp
next
  case (Cons c chunks)
  obtain t d where c: "c = (t, d)" by (cases c)
  show ?case
    by (simp add: c Cons.IH handle_def emit_simps written_append)
qed

lemma stderr_chunks_written:
  "written (errorLogFile info) (trace (handle_all os info (map (\<lambda>(t, d). (t, StderrData d)) chunks) m)) =
     written (errorLogFile info) (trace m) @ concat (map (\<lambda>(t, d). logLine (toISOString os t) d) chunks)"
proof (induction chunks arbitrary: m)
  case Nil
  show ?case by simp
next
  case (Cons c chunks)
  obtain t d where c: "c = (t, d)" by (cases c)
  show ?case
    by (simp add: c Cons.IH handle_def emit_simps written_append)
qed











subsection \<open>Failing starts\<close>

text \<open>
  C1, as the source has it. A start call throws, and leaves the map \<^verbatim>\<open>processes\<close> as
  it was, when the jar is not in the working directory (nothing else has happened yet)
  and when \<^verbatim>\<open>spawn\<close> itself throws (the record is stored only after \<^verbatim>\<open>spawn\<close> has
  returned). When \<^verbatim>\<open>spawn\<close> returns a child with its streams, the call returns
  normally with that child's pid and the child is registered under
  \<^verbatim>\<open>'minecraft-server'\<close>, also when the pid is \<^verbatim>\<open>undefined\<close> because the operating system
  could not start \<^verbatim>\<open>java\<close>.
\<close>

theorem start_throw_keeps_registry:
  "(\<not> existsSync os (path_join os [l_workingDir (destructure os c), l_jarFile (destructure os c)]) \<longrightarrow>
      startMinecraftServer os m c =
        (Inl (JarNotFound (path_join os [l_workingDir (destructure os c), l_jarFile (destructure os c)])), m))
   \<and> (existsSync os (path_join os [l_workingDir (destructure os c), l_jarFile (destructure os c)])
        \<and> spawn os ''java'' (build_args (destructure os c))
             \<lparr> cwd = l_workingDir (destructure os c), detached = (\<not> isWindows m),
               windowsHide = isWindows m \<rparr> = Inl msg \<longrightarrow>
      fst (startMinecraftServer os m c) = Inl (StartFailed msg)
      \<and> processes (snd (startMinecraftServer os m c)) = processes m)
   \<and> (existsSync os (path_join os [l_workingDir (destructure os c), l_jarFile (destructure os c)])
        \<and> spawn os ''java'' (build_args (destructure os c))
             \<lparr> cwd = l_workingDir (destructure os c), detached = (\<not> isWindows m),
               windowsHide = isWindows m \<rparr> = Inr ch
        \<and> child_stdio ch \<longrightarrow>
      (\<exists>r. fst (startMinecraftServer os m c) = Inr r \<and> started_pid r = child_pid ch)
      \<and> map_option process (processes (snd (startMinecraftServer os m c)) ''minecraft-server'') = Some ch)"
proof (intro conjI impI)
  assume "\<not> existsSync os (path_join os [l_workingDir (destructure os c), l_jarFile (destructure os c)])"
  then show "startMinecraftServer os m c =
      (Inl (JarNotFound (path_join os [l_workingDir (destructure os c), l_jarFile (destructure os c)])), m)"
    by (simp add: startMinecraftServer_def Let_def)
next
  assume thrown: "existsSync os (path_join os [l_workingDir (destructure os c), l_jarFile (destructure os c)])
        \<and> spawn os ''java'' (build_args (destructure os c))
             \<lparr> cwd = l_workingDir (destructure os c), detached = (\<not> isWindows m),
               windowsHide = isWindows m \<rparr> = Inl msg"
  then show "fst (startMinecraftServer os m c) = Inl (StartFailed msg)"
    by (simp add: startMinecraftServer_def Let_def)
  from thrown show "processes (snd (startMinecraftServer os m c)) = processes m"
    by (simp add: startMinecraftServer_def Let_def emit_simps)
next
  assume returned: "existsSync os (path_join os [l_workingDir (destructure os c), l_jarFile (destructure os c)])
        \<and> spawn os ''java'' (build_args (destructure os c))
             \<lparr> cwd = l_workingDir (destructure os c), detached = (\<not> isWindows m),
               windowsHide = isWindows m \<rparr> = Inr ch
        \<and> child_stdio ch"
  then show "\<exists>r. fst (startMinecraftServer os m c) = Inr r \<and> started_pid r = child_pid ch"
    by (simp add: startMinecraftServer_def Let_def)
  from returned show
    "map_option process (processes (snd (startMinecraftServer os m c)) ''minecraft-server'') = Some ch"
    by (simp add: startMinecraftServer_def Let_def emit_simps)
qed

text \<open>
  The three cases on the concrete installation: no jar; a \<^verbatim>\<open>spawn\<close> that throws, with a
  child already registered; a machine without \<^verbatim>\<open>java\<close>.
\<close>

theorem start_throw_keeps_registry_witness:
  "startMinecraftServer no_jar_os demo_running demo_config =
     (Inl (JarNotFound ''/srv/mc/server.jar''), demo_running)
   \<and> fst (startMinecraftServer throwing_os demo_running demo_config) = Inl (StartFailed ''spawn EINVAL'')
   \<and> processes (snd (startMinecraftServer throwing_os demo_running demo_config)) = processes demo_running
   \<and> (\<exists>r. fst (startMinecraftServer no_java_os demo_manager demo_config) = Inr r \<and> started_pid r = None)"
  using start_throw_keeps_registry [of no_jar_os demo_config demo_running]
        start_throw_keeps_registry [of throwing_os demo_config demo_running "''spawn EINVAL''"]
        start_throw_keeps_registry [of no_java_os demo_config demo_manager _ "\<lparr> child_pid = None, child_stdio = True \<rparr>"]
  by (simp add: destructure_def dflt_def no_jar_os_def throwing_os_def no_java_os_def demo_os_def
        demo_config_def demo_manager_def demo_running_def posix_eval)

text \<open>
  C1 as it is worded fails on a machine without \<^verbatim>\<open>java\<close>: the spawn fails at the
  operating system (the child has no pid), yet the call returns a result instead of
  an error, and the map, empty before, holds a record for \<^verbatim>\<open>'minecraft-server'\<close> after.
\<close>

theorem start_no_pid_counterexample:
  "spawn no_java_os ''java'' (build_args (destructure no_java_os demo_config))
       \<lparr> cwd = ''/srv/mc'', detached = True, windowsHide = False \<rparr>
     = Inr \<lparr> child_pid = None, child_stdio = True \<rparr>
   \<and> fst (startMinecraftServer no_java_os demo_manager demo_config) =
       Inr \<lparr> started_pid = None, started_startTime = 1000,
             started_logFile = ''/srv/wrapper/logs/minecraft-server-2024-01-01T10-00-00-000Z.log'',
             started_errorLogFile =
               ''/srv/wrapper/logs/minecraft-server-error-2024-01-01T10-00-00-000Z.log'' \<rparr>
   \<and> processes demo_manager ''minecraft-server'' = None
   \<and> processes (snd (startMinecraftServer no_java_os demo_manager demo_config)) ''minecraft-server'' =
       Some (demo_info\<lparr>pid := None, process := \<lparr> child_pid = None, child_stdio = True \<rparr>\<rparr>)"
  by (simp add: startMinecraftServer_def destructure_def dflt_def no_java_os_def demo_os_def
        demo_manager_def demo_config_def demo_info_def emit_simps dash_stamp_def Let_def posix_eval)

subsection \<open>Starting while running\<close>

text \<open>
  C2, as the source has it. When the map holds a record for \<^verbatim>\<open>'minecraft-server'\<close> and
  the liveness probe on its pid answers true, a start through the start route is
  answered with 400 \<^verbatim>\<open>Server is already running\<close> and changes nothing: the manager is
  the one before the call, so no second process has been spawned and the record has
  not been replaced. \<^verbatim>\<open>startMinecraftServer\<close> itself does not look at the map: called
  in that state, once the jar is found and \<^verbatim>\<open>spawn\<close> returns a child with its streams,
  it returns normally, has spawned \<^verbatim>\<open>java\<close>, and has put the new child's record in the
  place of the live one.
\<close>

theorem start_guard_in_route_only:
  assumes "processes (processManager a) ''minecraft-server'' = Some info"
      and "isProcessRunning os (processManager a) (pid info)"
  shows "api_server_start os a = (Failure 400 ''Server is already running'', a)
         \<and> (existsSync os (path_join os [l_workingDir (destructure os c), l_jarFile (destructure os c)])
              \<and> spawn os ''java'' (build_args (destructure os c))
                   \<lparr> cwd = l_workingDir (destructure os c), detached = (\<not> isWindows (processManager a)),
                     windowsHide = isWindows (processManager a) \<rparr> = Inr ch
              \<and> child_stdio ch \<longrightarrow>
            (\<exists>r. fst (startMinecraftServer os (processManager a) c) = Inr r
                  \<and> started_pid r = child_pid ch)
            \<and> trace (snd (startMinecraftServer os (processManager a) c))
                  ! length (trace (processManager a)) =
                Spawn ''java'' (build_args (destructure os c))
                  \<lparr> cwd = l_workingDir (destructure os c),
                    detached = (\<not> isWindows (processManager a)),
                    windowsHide = isWindows (processManager a) \<rparr>
            \<and> map_option (\<lambda>i. (pid i, startTime i, config i, process i))
                  (processes (snd (startMinecraftServer os (processManager a) c)) ''minecraft-server'')
                = Some (child_pid ch, now os, c, ch))"
proof (intro conjI impI)
  show "api_server_start os a = (Failure 400 ''Server is already running'', a)"
    using assms by (simp add: api_server_start_def getProcessStatus_def Let_def)
next
  assume ok: "existsSync os (path_join os [l_workingDir (destructure os c), l_jarFile (destructure os c)])
              \<and> spawn os ''java'' (build_args (destructure os c))
                   \<lparr> cwd = l_workingDir (destructure os c), detached = (\<not> isWindows (processManager a)),
                     windowsHide = isWindows (processManager a) \<rparr> = Inr ch
              \<and> child_stdio ch"
  then show "\<exists>r. fst (startMinecraftServer os (processManager a) c) = Inr r
                  \<and> started_pid r = child_pid ch"
    by (simp add: startMinecraftServer_def Let_def)
  from ok show "trace (snd (startMinecraftServer os (processManager a) c))
                  ! length (trace (processManager a)) =
                Spawn ''java'' (build_args (destructure os c))
                  \<lparr> cwd = l_workingDir (destructure os c),
                    detached = (\<not> isWindows (processManager a)),
                    windowsHide = isWindows (processManager a) \<rparr>"
    by (simp add: start_spawns)
  from ok show "map_option (\<lambda>i. (pid i, startTime i, config i, process i))
                  (processes (snd (startMinecraftServer os (processManager a) c)) ''minecraft-server'')
                = Some (child_pid ch, now os, c, ch)"
    by (simp add: startMinecraftServer_def Let_def emit_simps)
qed

theorem start_guard_in_route_only_witness:
  "processes (processManager demo_app) ''minecraft-server'' = Some demo_info
   \<and> isProcessRunning later_os (processManager demo_app) (pid demo_info)
   \<and> api_server_start later_os demo_app = (Failure 400 ''Server is already running'', demo_app)
   \<and> (\<exists>r. fst (startMinecraftServer later_os (processManager demo_app) demo_config) = Inr r
           \<and> started_pid r = Some 4343)
   \<and> map_option (\<lambda>i. (pid i, startTime i, config i, process i))
        (processes (snd (startMinecraftServer later_os (processManager demo_app) demo_config))
           ''minecraft-server'')
       = Some (Some 4343, 2000, demo_config, \<lparr> child_pid = Some 4343, child_stdio = True \<rparr>)"
proof -
  have p: "processes (processManager demo_app) ''minecraft-server'' = Some demo_info"
    by (simp add: demo_app_def demo_running_def)
  have r: "isProcessRunning later_os (processManager demo_app) (pid demo_info)"
    by (simp add: isProcessRunning_def demo_app_def demo_running_def demo_manager_def
          demo_info_def later_os_def demo_os_def)
  have j: "existsSync later_os (path_join later_os
             [l_workingDir (destructure later_os demo_config), l_jarFile (destructure later_os demo_config)])"
    by (simp add: destructure_def dflt_def demo_config_def later_os_def demo_os_def posix_eval)
  have s: "spawn later_os ''java'' (build_args (destructure later_os demo_config))
             \<lparr> cwd = l_workingDir (destructure later_os demo_config),
               detached = (\<not> isWindows (processManager demo_app)),
               windowsHide = isWindows (processManager demo_app) \<rparr>
           = Inr \<lparr> child_pid = Some 4343, child_stdio = True \<rparr>"
    by (simp add: later_os_def)
  have n: "now later_os = 2000"
    by (simp add: later_os_def)
  from p r j s n
    start_guard_in_route_only [OF p r, of demo_config "\<lparr> child_pid = Some 4343, child_stdio = True \<rparr>"]
  show ?thesis by simp
qed

text \<open>
  C2 as it is worded fails for the start call of the manager: process 4242 is
  registered and the probe reports it alive, yet \<^verbatim>\<open>startMinecraftServer\<close> does not fail:
  it spawns \<^verbatim>\<open>java\<close> again and the record of process 4242 is replaced by that of
  process 4343.
\<close>

theorem start_twice_counterexample:
  "processes demo_running ''minecraft-server'' = Some demo_info
   \<and> isProcessRunning later_os demo_running (pid demo_info)
   \<and> fst (startMinecraftServer later_os demo_running demo_config) =
       Inr \<lparr> started_pid = Some 4343, started_startTime = 2000,
             started_logFile = ''/srv/wrapper/logs/minecraft-server-2024-01-01T10-00-00-000Z.log'',
             started_errorLogFile =
               ''/srv/wrapper/logs/minecraft-server-error-2024-01-01T10-00-00-000Z.log'' \<rparr>
   \<and> hd (trace (snd (startMinecraftServer later_os demo_running demo_config))) =
       Spawn ''java'' ([''-Xms1G'', ''-Xmx2G''] @ aikarFlags @ [''-jar'', ''server.jar'', ''--nogui''])
         \<lparr> cwd = ''/srv/mc'', detached = True, windowsHide = False \<rparr>
   \<and> processes (snd (startMinecraftServer later_os demo_running demo_config)) ''minecraft-server'' =
       Some (demo_info\<lparr>pid := Some 4343, startTime := 2000,
                        process := \<lparr> child_pid = Some 4343, child_stdio = True \<rparr>\<rparr>)"
  by (simp add: startMinecraftServer_def isProcessRunning_def destructure_def dflt_def build_args_def
        push_def later_os_def demo_os_def demo_running_def demo_manager_def demo_config_def
        demo_info_def emit_simps dash_stamp_def Let_def posix_eval)

subsection \<open>Status of a dead process\<close>

text \<open>
  C3, as the source has it. For a name whose record exists and whose pid the probe
  reports dead, \<^verbatim>\<open>getProcessStatus\<close> answers \<^verbatim>\<open>running: false\<close> and leaves the manager
  as it is: the record is still in the map after the call. The record goes when
  \<^verbatim>\<open>cleanup\<close> is called (or when the child's \<^verbatim>\<open>'close'\<close> listener runs).
\<close>

theorem status_keeps_dead_record:
  assumes "processes m name = Some info" and "\<not> isProcessRunning os m (pid info)"
  shows "running (fst (getProcessStatus os m name)) = False
         \<and> snd (getProcessStatus os m name) = m
         \<and> processes (snd (getProcessStatus os m name)) name = Some info
         \<and> processes (cleanup os m) name = None"
  using assms by (simp add: getProcessStatus_def cleanup_def Let_def)

theorem status_keeps_dead_record_witness:
  "processes demo_running ''minecraft-server'' = Some demo_info
   \<and> \<not> isProcessRunning dead_os demo_running (pid demo_info)
   \<and> running (fst (getProcessStatus dead_os demo_running ''minecraft-server'')) = False
   \<and> snd (getProcessStatus dead_os demo_running ''minecraft-server'') = demo_running
   \<and> processes (cleanup dead_os demo_running) ''minecraft-server'' = None"
proof -
  have p: "processes demo_running ''minecraft-server'' = Some demo_info"
    by (simp add: demo_running_def)
  have r: "\<not> isProcessRunning dead_os demo_running (pid demo_info)"
    by (simp add: isProcessRunning_def demo_running_def demo_manager_def demo_info_def
          dead_os_def demo_os_def)
  from p r status_keeps_dead_record [OF p r] show ?thesis by simp
qed

text \<open>
  C3 as it is worded fails: process 4242 is registered and dead, the status call
  reports \<^verbatim>\<open>running: false\<close>, and the map still holds the record after the call.
\<close>

theorem status_purge_counterexample:
  "processes demo_running ''minecraft-server'' = Some demo_info
   \<and> isProcessRunning dead_os demo_running (pid demo_info) = False
   \<and> running (fst (getProcessStatus dead_os demo_running ''minecraft-server'')) = False
   \<and> processes (snd (getProcessStatus dead_os demo_running ''minecraft-server'')) ''minecraft-server''
       = Some demo_info"
  by (simp add: getProcessStatus_def isProcessRunning_def demo_running_def demo_manager_def
        demo_info_def dead_os_def demo_os_def Let_def)

subsection \<open>A stop that times out\<close>

text \<open>
  C4. A stop call on a registered process whose \<^verbatim>\<open>'close'\<close> event does not come before
  the timer fails: for the server child with its input stream the error is
  \<^verbatim>\<open>did not stop within\<close> the timeout, and all the call has sent is the word \<^verbatim>\<open>stop\<close>.
  For every registered name the firing timer sends nothing, since the manager after
  the call is the manager after the request, and nothing the whole call has sent is a
  forced termination (no \<^verbatim>\<open>SIGKILL\<close>, no \<^verbatim>\<open>taskkill\<close>); a kill is a separate call.
\<close>

theorem stop_timeout_no_escalation:
  assumes "processes m name = Some info"
  shows "(name = ''minecraft-server'' \<and> child_stdio (process info) \<longrightarrow>
            stopProcess os m name tmo TimerFired =
              (Inl (DidNotStop name (dflt 30000 tmo)),
               emit [StdinWrite (process info) ''stop\<newline>''] m))
         \<and> (\<exists>e. fst (stopProcess os m name tmo TimerFired) = Inl e)
         \<and> snd (stopProcess os m name tmo TimerFired) = snd (stop_request os m name info)
         \<and> list_all (\<lambda>e. \<not> forced e)
             (drop (length (trace m)) (trace (snd (stopProcess os m name tmo TimerFired))))"
proof -
  have a: "name = ''minecraft-server'' \<and> child_stdio (process info) \<longrightarrow>
            stopProcess os m name tmo TimerFired =
              (Inl (DidNotStop name (dflt 30000 tmo)),
               emit [StdinWrite (process info) ''stop\<newline>''] m)"
    using assms by (auto simp: stopProcess_def stop_request_def Let_def)
  have b: "snd (stopProcess os m name tmo TimerFired) = snd (stop_request os m name info)"
    using assms by (rule stop_timer_adds_nothing)
  have c: "list_all (\<lambda>e. \<not> forced e)
             (drop (length (trace m)) (trace (snd (stopProcess os m name tmo TimerFired))))"
    unfolding b by (rule stop_request_not_forced)
  from a b c stop_timer_fails [of os m name tmo] show ?thesis by blast
qed

theorem stop_timeout_no_escalation_witness:
  "processes demo_running ''minecraft-server'' = Some demo_info
   \<and> child_stdio (process demo_info)
   \<and> fst (stopProcess demo_os demo_running ''minecraft-server'' (Some 0) TimerFired) =
       Inl (DidNotStop ''minecraft-server'' 0)
   \<and> trace (snd (stopProcess demo_os demo_running ''minecraft-server'' (Some 0) TimerFired)) =
       [StdinWrite demo_child ''stop\<newline>'']"
proof -
  have p: "processes demo_running ''minecraft-server'' = Some demo_info"
    by (simp add: demo_running_def)
  have s: "child_stdio (process demo_info)"
    by (simp add: demo_info_def demo_child_def)
  have c: "process demo_info = demo_child"
    by (simp add: demo_info_def)
  have t: "trace demo_running = []"
    by (simp add: demo_running_def demo_manager_def)
  from p s c t stop_timeout_no_escalation [OF p, of demo_os "Some 0"] show ?thesis
    by (simp add: emit_simps dflt_def)
qed

subsection \<open>Killing on Windows\<close>

text \<open>
  C5 at the input where the source departs from it. On Windows, with process 4242
  registered and alive, the kill call returns at once after running
  \<^verbatim>\<open>taskkill /F /PID 4242\<close>: the command names the one process and lacks the tree
  switch, so nothing the call has sent reaches the descendants of the child.
\<close>

theorem kill_windows_misses_tree:
  "isWindows demo_running_windows
   \<and> processes demo_running_windows ''minecraft-server'' = Some demo_info
   \<and> isProcessRunning demo_os demo_running_windows (pid demo_info)
   \<and> killProcess demo_os demo_running_windows ''minecraft-server'' None =
       (Inr (), emit [Exec ''taskkill /F /PID 4242''] demo_running_windows)
   \<and> \<not> list_ex reaches_tree
         (trace (snd (killProcess demo_os demo_running_windows ''minecraft-server'' None)))"
  by (simp add: killProcess_def isProcessRunning_def demo_running_windows_def demo_running_def
        demo_manager_def demo_info_def demo_os_def dflt_def show_pid_def show_nat_4242 Let_def
        emit_simps reaches_tree_def)

subsection \<open>The argument vector\<close>

text \<open>
  C6. For every config the argument vector is, in this order: \<^verbatim>\<open>-Xms\<close> and \<^verbatim>\<open>-Xmx\<close>
  with the two memory bounds; the block of Aikar's flags exactly when the toggle is
  set; the extra JVM arguments; \<^verbatim>\<open>-jar\<close>, the jar file and \<^verbatim>\<open>--nogui\<close>; the trailing
  server arguments. The block is a constant of 18 flags, and the vector is the one
  handed to \<^verbatim>\<open>spawn\<close> once the jar has been found.
\<close>

theorem launch_argument_order:
  "build_args (destructure os c) =
     [''-Xms'' @ dflt ''1G'' (minMemory c), ''-Xmx'' @ dflt ''2G'' (maxMemory c)]
     @ (if dflt False (useAikarFlags c) then aikarFlags else [])
     @ dflt [] (jvmArgs c)
     @ [''-jar'', dflt ''server.jar'' (jarFile c), ''--nogui'']
     @ dflt [] (serverArgs c)
   \<and> length aikarFlags = 18
   \<and> (existsSync os (path_join os [l_workingDir (destructure os c), l_jarFile (destructure os c)]) \<longrightarrow>
        trace (snd (startMinecraftServer os m c)) ! length (trace m) =
          Spawn ''java'' (build_args (destructure os c))
            \<lparr> cwd = l_workingDir (destructure os c), detached = (\<not> isWindows m),
              windowsHide = isWindows m \<rparr>)"
  using start_spawns [of os c m]
  by (simp add: build_args_order destructure_def aikarFlags_def)

theorem launch_argument_order_witness:
  "existsSync demo_os ''/srv/mc/server.jar''
   \<and> build_args (destructure demo_os demo_config) =
       [''-Xms1G'', ''-Xmx2G''] @ aikarFlags @ [''-jar'', ''server.jar'', ''--nogui'']
   \<and> trace (snd (startMinecraftServer demo_os demo_manager demo_config)) ! 0 =
       Spawn ''java'' ([''-Xms1G'', ''-Xmx2G''] @ aikarFlags @ [''-jar'', ''server.jar'', ''--nogui''])
         \<lparr> cwd = ''/srv/mc'', detached = True, windowsHide = False \<rparr>"
  using launch_argument_order [of demo_os demo_config demo_manager]
  by (simp add: demo_os_def demo_config_def demo_manager_def destructure_def dflt_def posix_eval)

subsection \<open>Commands\<close>

text \<open>
  C7, as the source has it. \<^verbatim>\<open>sendCommand\<close> throws \<^verbatim>\<open>not found\<close> exactly when the map
  has no record for the name. With a record it writes the text and one newline to the
  child's input and returns \<^verbatim>\<open>true\<close>, or returns \<^verbatim>\<open>false\<close>, having written nothing,
  when the write throws. No lifecycle state is read: the answer of the command route
  is the same whatever \<^verbatim>\<open>serverStatus\<close> holds.
\<close>

theorem command_ignores_lifecycle:
  "(processes m name = None \<longrightarrow> sendCommand m name command = (Inl (ProcessNotFound name), m))
   \<and> (processes m name = Some info \<and> child_stdio (process info) \<longrightarrow>
        sendCommand m name command =
          (Inr True, emit [StdinWrite (process info) (command @ ''\<newline>'')] m))
   \<and> (processes m name = Some info \<and> \<not> child_stdio (process info) \<longrightarrow>
        fst (sendCommand m name command) = Inr False
        \<and> processes (snd (sendCommand m name command)) = processes m
        \<and> list_all (\<lambda>e. case e of StdinWrite ch text \<Rightarrow> False | _ \<Rightarrow> True)
            (drop (length (trace m)) (trace (snd (sendCommand m name command)))))
   \<and> fst (api_server_command (a\<lparr>serverStatus := s\<rparr>) body) = fst (api_server_command a body)"
  by (simp add: sendCommand_def api_server_command_def emit_simps
           split: option.splits prod.splits sum.splits)

theorem command_ignores_lifecycle_witness:
  "sendCommand demo_manager ''minecraft-server'' ''list'' =
     (Inl (ProcessNotFound ''minecraft-server''), demo_manager)
   \<and> sendCommand demo_running ''minecraft-server'' ''list'' =
     (Inr True, emit [StdinWrite demo_child ''list\<newline>''] demo_running)
   \<and> fst (sendCommand (demo_running\<lparr>processes := [''minecraft-server'' \<mapsto>
            demo_info\<lparr>process := \<lparr> child_pid = None, child_stdio = False \<rparr>\<rparr>]\<rparr>)
          ''minecraft-server'' ''list'') = Inr False"
  using command_ignores_lifecycle [of demo_manager "''minecraft-server''" "''list''"]
        command_ignores_lifecycle [of demo_running "''minecraft-server''" "''list''" demo_info]
        command_ignores_lifecycle [of "demo_running\<lparr>processes := [''minecraft-server'' \<mapsto>
            demo_info\<lparr>process := \<lparr> child_pid = None, child_stdio = False \<rparr>\<rparr>]\<rparr>"
            "''minecraft-server''" "''list''"
            "demo_info\<lparr>process := \<lparr> child_pid = None, child_stdio = False \<rparr>\<rparr>"]
  by (simp add: demo_manager_def demo_running_def demo_info_def demo_child_def)

text \<open>
  C7 as it is worded fails: the record exists, the wrapper's status is \<^verbatim>\<open>stopping\<close>
  and the probe reports the pid dead, yet the command is not refused: it is written to
  the child's input and the route answers with success.
\<close>

theorem command_while_stopping_counterexample:
  "serverStatus (demo_app\<lparr>serverStatus := Stopping\<rparr>) = Stopping
   \<and> isProcessRunning dead_os (processManager (demo_app\<lparr>serverStatus := Stopping\<rparr>)) (pid demo_info) = False
   \<and> api_server_command (demo_app\<lparr>serverStatus := Stopping\<rparr>) (Some ''say hi'') =
       (Success ''Command sent successfully'',
        demo_app\<lparr>serverStatus := Stopping,
                 processManager := emit [StdinWrite demo_child ''say hi\<newline>''] demo_running\<rparr>)
   \<and> sendCommand demo_running ''minecraft-server'' ''say hi'' =
       (Inr True, emit [StdinWrite demo_child ''say hi\<newline>''] demo_running)"
  by (simp add: api_server_command_def sendCommand_def isProcessRunning_def demo_app_def
        demo_running_def demo_manager_def demo_info_def demo_child_def dead_os_def demo_os_def)

subsection \<open>Backup\<close>




subsection \<open>Stamps in the log files\<close>

text \<open>
  C9, as the source has it. Each chunk that arrives on the child's output is written
  to the log file as one text, the stamp of its arrival in brackets, a space, and the
  chunk as it came: the file holds these texts one after the other, for the standard
  output in the log file and for the standard error in the error log file. The stamp
  is put once a chunk, wherever the lines of the child begin and end.
\<close>

theorem chunk_stamped_once:
  "written (logFile info) (trace (handle_all os info (map (\<lambda>(t, d). (t, StdoutData d)) chunks) m)) =
     written (logFile info) (trace m)
     @ concat (map (\<lambda>(t, d). ''['' @ toISOString os t @ ''] '' @ d) chunks)
   \<and> written (errorLogFile info)
       (trace (handle_all os info (map (\<lambda>(t, d). (t, StderrData d)) chunks) m)) =
     written (errorLogFile info) (trace m)
     @ concat (map (\<lambda>(t, d). ''['' @ toISOString os t @ ''] '' @ d) chunks)"
  using stdout_chunks_written [of info os chunks m] stderr_chunks_written [of info os chunks m]
  by (simp add: logLine_def)

theorem chunk_stamped_once_witness:
  "written (logFile demo_info)
     (trace (handle_all demo_os demo_info [(1000, StdoutData ''Done''), (1001, StdoutData ''!\<newline>'')]
        demo_running)) =
   ''[2024-01-01T10:00:00.000Z] Done[2024-01-01T10:00:00.000Z] !\<newline>''"
  using chunk_stamped_once [of demo_info demo_os "[(1000, ''Done''), (1001, ''!\<newline>'')]" demo_running]
  by (simp add: demo_os_def demo_running_def demo_manager_def)

text \<open>
  C9 as it is worded fails: one chunk that holds two lines is written with one stamp,
  and the second line of the log file, \<^verbatim>\<open>b\<close>, has none.
\<close>

theorem chunk_lines_counterexample:
  "split_lines (written (logFile demo_info)
      (trace (handle_all demo_os demo_info [(1000, StdoutData ''a\<newline>b\<newline>'')] demo_running))) =
     [''[2024-01-01T10:00:00.000Z] a'', ''b'']
   \<and> \<not> list_all stamped (split_lines (written (logFile demo_info)
      (trace (handle_all demo_os demo_info [(1000, StdoutData ''a\<newline>b\<newline>'')] demo_running))))"
  by (simp add: handle_def emit_simps logLine_def split_lines_def stamped_def demo_os_def
        demo_running_def demo_manager_def demo_info_def)

subsection \<open>Defaults of the config\<close>

text \<open>
  C10. For every config, the destructuring gives each property that is omitted its
  fixed default (jar \<^verbatim>\<open>server.jar\<close>, memory \<^verbatim>\<open>1G\<close> and \<^verbatim>\<open>2G\<close>, no extra arguments,
  Aikar's flags off, the default working directory) and keeps each property that is
  given; with no property at all these are the seven defaults. The values so obtained
  are the ones the start call uses: it looks for the jar under that working directory
  and name, and hands \<^verbatim>\<open>spawn\<close> the arguments built from them, in that working
  directory. So the start call does on a config what it does on the same config with
  the defaults supplied for what is omitted: the same result or error, the same calls
  to the outside, and the same registered record but for the config stored in it,
  which is the caller's object.
\<close>

theorem omitted_fields_take_defaults:
  "destructure os c =
     \<lparr> l_jarFile = (case jarFile c of None \<Rightarrow> ''server.jar'' | Some x \<Rightarrow> x),
       l_minMemory = (case minMemory c of None \<Rightarrow> ''1G'' | Some x \<Rightarrow> x),
       l_maxMemory = (case maxMemory c of None \<Rightarrow> ''2G'' | Some x \<Rightarrow> x),
       l_jvmArgs = (case jvmArgs c of None \<Rightarrow> [] | Some x \<Rightarrow> x),
       l_serverArgs = (case serverArgs c of None \<Rightarrow> [] | Some x \<Rightarrow> x),
       l_workingDir = (case workingDir c of
                         None \<Rightarrow> path_join os [dirname os, ''..'', ''minecraft-server'']
                       | Some x \<Rightarrow> x),
       l_useAikarFlags = (case useAikarFlags c of None \<Rightarrow> False | Some x \<Rightarrow> x) \<rparr>
   \<and> destructure os empty_config =
     \<lparr> l_jarFile = ''server.jar'', l_minMemory = ''1G'', l_maxMemory = ''2G'', l_jvmArgs = [],
       l_serverArgs = [], l_workingDir = path_join os [dirname os, ''..'', ''minecraft-server''],
       l_useAikarFlags = False \<rparr>
   \<and> (\<not> existsSync os (path_join os [l_workingDir (destructure os c), l_jarFile (destructure os c)]) \<longrightarrow>
        startMinecraftServer os m c =
          (Inl (JarNotFound (path_join os [l_workingDir (destructure os c), l_jarFile (destructure os c)])),
           m))
   \<and> (existsSync os (path_join os [l_workingDir (destructure os c), l_jarFile (destructure os c)]) \<longrightarrow>
        trace (snd (startMinecraftServer os m c)) ! length (trace m) =
          Spawn ''java''
            ([''-Xms'' @ l_minMemory (destructure os c), ''-Xmx'' @ l_maxMemory (destructure os c)]
             @ (if l_useAikarFlags (destructure os c) then aikarFlags else [])
             @ l_jvmArgs (destructure os c)
             @ [''-jar'', l_jarFile (destructure os c), ''--nogui'']
             @ l_serverArgs (destructure os c))
            \<lparr> cwd = l_workingDir (destructure os c), detached = (\<not> isWindows m),
              windowsHide = isWindows m \<rparr>)
   \<and> fst (startMinecraftServer os m c) = fst (startMinecraftServer os m (defaults_supplied os c))
   \<and> trace (snd (startMinecraftServer os m c)) =
       trace (snd (startMinecraftServer os m (defaults_supplied os c)))
   \<and> map_option (\<lambda>i. (pid i, startTime i, logFile i, errorLogFile i, process i))
         (processes (snd (startMinecraftServer os m c)) name) =
       map_option (\<lambda>i. (pid i, startTime i, logFile i, errorLogFile i, process i))
         (processes (snd (startMinecraftServer os m (defaults_supplied os c))) name)"
proof -
  have d: "destructure os c =
     \<lparr> l_jarFile = (case jarFile c of None \<Rightarrow> ''server.jar'' | Some x \<Rightarrow> x),
       l_minMemory = (case minMemory c of None \<Rightarrow> ''1G'' | Some x \<Rightarrow> x),
       l_maxMemory = (case maxMemory c of None \<Rightarrow> ''2G'' | Some x \<Rightarrow> x),
       l_jvmArgs = (case jvmArgs c of None \<Rightarrow> [] | Some x \<Rightarrow> x),
       l_serverArgs = (case serverArgs c of None \<Rightarrow> [] | Some x \<Rightarrow> x),
       l_workingDir = (case workingDir c of
                         None \<Rightarrow> path_join os [dirname os, ''..'', ''minecraft-server'']
                       | Some x \<Rightarrow> x),
       l_useAikarFlags = (case useAikarFlags c of None \<Rightarrow> False | Some x \<Rightarrow> x) \<rparr>"
    by (simp add: destructure_def dflt_def)
  have e: "destructure os empty_config =
     \<lparr> l_jarFile = ''server.jar'', l_minMemory = ''1G'', l_maxMemory = ''2G'', l_jvmArgs = [],
       l_serverArgs = [], l_workingDir = path_join os [dirname os, ''..'', ''minecraft-server''],
       l_useAikarFlags = False \<rparr>"
    by (simp add: destructure_def empty_config_def dflt_def)
  have s: "destructure os (defaults_supplied os c) = destructure os c"
    by (simp add: destructure_def defaults_supplied_def dflt_def)
  have j: "\<not> existsSync os (path_join os [l_workingDir (destructure os c), l_jarFile (destructure os c)]) \<longrightarrow>
        startMinecraftServer os m c =
          (Inl (JarNotFound (path_join os [l_workingDir (destructure os c), l_jarFile (destructure os c)])),
           m)"
    by (simp add: startMinecraftServer_def Let_def)
  have a: "existsSync os (path_join os [l_workingDir (destructure os c), l_jarFile (destructure os c)]) \<longrightarrow>
        trace (snd (startMinecraftServer os m c)) ! length (trace m) =
          Spawn ''java''
            ([''-Xms'' @ l_minMemory (destructure os c), ''-Xmx'' @ l_maxMemory (destructure os c)]
             @ (if l_useAikarFlags (destructure os c) then aikarFlags else [])
             @ l_jvmArgs (destructure os c)
             @ [''-jar'', l_jarFile (destructure os c), ''--nogui'']
             @ l_serverArgs (destructure os c))
            \<lparr> cwd = l_workingDir (destructure os c), detached = (\<not> isWindows m),
              windowsHide = isWindows m \<rparr>"
    using start_spawns [of os c m] by (simp add: build_args_order)
  have r: "fst (startMinecraftServer os m c) = fst (startMinecraftServer os m (defaults_supplied os c))"
    by (simp add: startMinecraftServer_def s Let_def split: sum.splits)
  have t: "trace (snd (startMinecraftServer os m c)) =
       trace (snd (startMinecraftServer os m (defaults_supplied os c)))"
    by (simp add: startMinecraftServer_def s Let_def emit_simps split: sum.splits)
  have p: "map_option (\<lambda>i. (pid i, startTime i, logFile i, errorLogFile i, process i))
         (processes (snd (startMinecraftServer os m c)) name) =
       map_option (\<lambda>i. (pid i, startTime i, logFile i, errorLogFile i, process i))
         (processes (snd (startMinecraftServer os m (defaults_supplied os c))) name)"
    by (simp add: startMinecraftServer_def s Let_def emit_simps split: sum.splits)
  from d e j a r t p show ?thesis by blast
qed

text \<open>
  On the concrete installation, whose default server directory holds a jar: the start
  with no property, and the start with the upper memory bound and the server arguments
  alone.
\<close>

theorem omitted_fields_take_defaults_witness:
  "existsSync demo_os ''/srv/wrapper/minecraft-server/server.jar''
   \<and> trace (snd (startMinecraftServer demo_os demo_manager empty_config)) ! 0 =
       Spawn ''java'' [''-Xms1G'', ''-Xmx2G'', ''-jar'', ''server.jar'', ''--nogui'']
         \<lparr> cwd = ''/srv/wrapper/minecraft-server'', detached = True, windowsHide = False \<rparr>
   \<and> trace (snd (startMinecraftServer demo_os demo_manager partial_config)) ! 0 =
       Spawn ''java'' [''-Xms1G'', ''-Xmx4G'', ''-jar'', ''server.jar'', ''--nogui'', ''--port'', ''25566'']
         \<lparr> cwd = ''/srv/wrapper/minecraft-server'', detached = True, windowsHide = False \<rparr>
   \<and> fst (startMinecraftServer demo_os demo_manager empty_config) =
       fst (startMinecraftServer demo_os demo_manager (defaults_supplied demo_os empty_config))"
proof -
  have x: "existsSync demo_os ''/srv/wrapper/minecraft-server/server.jar''"
    by (simp add: demo_os_def)
  have dn: "dirname demo_os = ''/srv/wrapper/scripts''"
    by (simp add: demo_os_def)
  have w: "isWindows demo_manager = False" "trace demo_manager = []"
    by (simp_all add: demo_manager_def)
  note e = omitted_fields_take_defaults [of demo_os empty_config demo_manager "''minecraft-server''"]
  note q = omitted_fields_take_defaults [of demo_os partial_config demo_manager "''minecraft-server''"]
  have de: "destructure demo_os empty_config =
     \<lparr> l_jarFile = ''server.jar'', l_minMemory = ''1G'', l_maxMemory = ''2G'', l_jvmArgs = [],
       l_serverArgs = [], l_workingDir = ''/srv/wrapper/minecraft-server'',
       l_useAikarFlags = False \<rparr>"
    using e [THEN conjunct1] by (simp add: empty_config_def dn demo_paths)
  have dq: "destructure demo_os partial_config =
     \<lparr> l_jarFile = ''server.jar'', l_minMemory = ''1G'', l_maxMemory = ''4G'', l_jvmArgs = [],
       l_serverArgs = [''--port'', ''25566''], l_workingDir = ''/srv/wrapper/minecraft-server'',
       l_useAikarFlags = False \<rparr>"
    using q [THEN conjunct1] by (simp add: partial_config_def empty_config_def dn demo_paths)
  from e [THEN conjunct2, THEN conjunct2, THEN conjunct2, THEN conjunct1] have se: "trace (snd (startMinecraftServer demo_os demo_manager empty_config)) ! 0 =
       Spawn ''java'' [''-Xms1G'', ''-Xmx2G'', ''-jar'', ''server.jar'', ''--nogui'']
         \<lparr> cwd = ''/srv/wrapper/minecraft-server'', detached = True, windowsHide = False \<rparr>"
    by (simp add: de x w demo_paths)
  from q [THEN conjunct2, THEN conjunct2, THEN conjunct2, THEN conjunct1] have sq: "trace (snd (startMinecraftServer demo_os demo_manager partial_config)) ! 0 =
       Spawn ''java'' [''-Xms1G'', ''-Xmx4G'', ''-jar'', ''server.jar'', ''--nogui'', ''--port'', ''25566'']
         \<lparr> cwd = ''/srv/wrapper/minecraft-server'', detached = True, windowsHide = False \<rparr>"
    by (simp add: dq x w demo_paths)
  from e have eq: "fst (startMinecraftServer demo_os demo_manager empty_config) =
       fst (startMinecraftServer demo_os demo_manager (defaults_supplied demo_os empty_config))"
    by blast
  from x se sq eq show ?thesis by blast
qed


end
